theory Spec2Isabelle
  imports Main
begin

section \<open>Dataset setup (the spreadsheet cell of \<^verbatim>\<open>fine_tune.ipynb\<close>)\<close>

subsection \<open>Tables\<close>

text \<open>
  \<^verbatim>\<open>edited_df = pd.read_csv(EDITED_CSV_PATH)\<close> is a table: an ordered list of named
  columns, every column holding one cell per row. \<^verbatim>\<open>read_csv\<close> decides the type of each
  column from its content. An empty cell, or one that spells a missing value, becomes
  \<^verbatim>\<open>nan\<close>. A column whose cells are all numbers (or all truth values) becomes a numeric
  column; so does a column with no filled cell at all. Any other column is an
  \<^verbatim>\<open>object\<close> column and holds its cells as text. Numbers are kept without their value:
  no number ever reaches a training string.

  The errors of the notebook: \<^verbatim>\<open>KeyError\<close> from a lookup \<^verbatim>\<open>edited_df[name]\<close> of a name
  that is not a column, \<^verbatim>\<open>TypeError\<close> from adding text and a number,
  an error of the Arrow library when a dataset column cannot be given one type, and
  \<^verbatim>\<open>OSError\<close> when the model hub cannot be read.
\<close>

datatype error = KeyError string | TypeError | ArrowError | OSError string

datatype cell = Str string | Num | NaN

datatype series = Object "cell list" | Numeric "cell list"

fun cells :: "series \<Rightarrow> cell list" where
  "cells (Object xs) = xs"
| "cells (Numeric xs) = xs"

type_synonym dataframe = "(string \<times> series) list"

definition df_columns :: "dataframe \<Rightarrow> string list" where
  "df_columns df = map fst df"

definition nrows :: "dataframe \<Rightarrow> nat" where
  "nrows df = (case df of [] \<Rightarrow> 0 | (name, col) # rest \<Rightarrow> length (cells col))"

text \<open>
  What \<^verbatim>\<open>read_csv\<close> hands over: column names are pairwise different (it renames
  repeated headers), the table is rectangular, an object column holds no number and a
  numeric column no text.
\<close>

fun well_typed :: "series \<Rightarrow> bool" where
  "well_typed (Object xs) = list_all (\<lambda>c. c \<noteq> Num) xs"
| "well_typed (Numeric xs) = list_all (\<lambda>c. c = Num \<or> c = NaN) xs"

definition wf_df :: "dataframe \<Rightarrow> bool" where
  "wf_df df =
     (distinct (df_columns df)
      \<and> list_all (\<lambda>c. length (cells (snd c)) = nrows df \<and> well_typed (snd c)) df)"

definition df_getitem :: "dataframe \<Rightarrow> string \<Rightarrow> error + series" where
  "df_getitem df name =
     (case map_of df name of None \<Rightarrow> Inl (KeyError name) | Some col \<Rightarrow> Inr col)"

subsection \<open>Adding columns\<close>

text \<open>
  \<^verbatim>\<open>+\<close> on one pair of cells. A missing cell on either side gives a missing cell: the
  library leaves such rows out of the addition and fills them with \<^verbatim>\<open>nan\<close>. Text and
  text are joined. Text and a number cannot be added.
\<close>

fun cell_add :: "cell \<Rightarrow> cell \<Rightarrow> error + cell" where
  "cell_add NaN y = Inr NaN"
| "cell_add x NaN = Inr NaN"
| "cell_add (Str a) (Str b) = Inr (Str (a @ b))"
| "cell_add Num Num = Inr Num"
| "cell_add (Str a) Num = Inl TypeError"
| "cell_add Num (Str b) = Inl TypeError"

text \<open>Row by row; one row that cannot be added fails the whole addition.\<close>

fun cells_add :: "cell list \<Rightarrow> cell list \<Rightarrow> error + cell list" where
  "cells_add (x # xs) (y # ys) =
     (case cell_add x y of
        Inl e \<Rightarrow> Inl e
      | Inr z \<Rightarrow>
          (case cells_add xs ys of
             Inl e \<Rightarrow> Inl e
           | Inr zs \<Rightarrow> Inr (z # zs)))"
| "cells_add xs ys = Inr []"

text \<open>
  \<^verbatim>\<open>a + b\<close> on two columns of one table: the sum of two numeric columns is numeric,
  every other sum is an object column.
\<close>

definition series_add :: "series \<Rightarrow> series \<Rightarrow> error + series" where
  "series_add a b =
     (case cells_add (cells a) (cells b) of
        Inl e \<Rightarrow> Inl e
      | Inr zs \<Rightarrow>
          (case (a, b) of
             (Numeric xs, Numeric ys) \<Rightarrow> Inr (Numeric zs)
           | _ \<Rightarrow> Inr (Object zs)))"

text \<open>
  \<^verbatim>\<open>s + "text"\<close>: an object column adds the text to every row, as above. A numeric
  column has no addition with text at all and raises whatever its cells are.
\<close>

fun series_add_str :: "series \<Rightarrow> string \<Rightarrow> error + series" where
  "series_add_str (Object xs) s =
     (case cells_add xs (replicate (length xs) (Str s)) of
        Inl e \<Rightarrow> Inl e
      | Inr zs \<Rightarrow> Inr (Object zs))"
| "series_add_str (Numeric xs) s = Inl TypeError"

subsection \<open>Strings\<close>

definition startswith :: "string \<Rightarrow> string \<Rightarrow> bool" where
  "startswith s p = (take (length p) s = p)"

text \<open>\<^verbatim>\<open>str.removeprefix\<close>: the string without the prefix if it has it, else unchanged.\<close>

definition removeprefix :: "string \<Rightarrow> string \<Rightarrow> string" where
  "removeprefix s p = (if startswith s p then drop (length p) s else s)"

text \<open>
  \<^verbatim>\<open>re.match("inference_output .*", column)\<close>: the pattern is anchored at the start of
  the column name only; after the literal text, \<^verbatim>\<open>.*\<close> takes every character up to the
  first line feed, possibly none. The result is the matched text, or \<open>None\<close>.
\<close>

definition re_match_inference_output :: "string \<Rightarrow> string option" where
  "re_match_inference_output column =
     (if startswith column ''inference_output ''
      then Some (''inference_output '' @
                 takeWhile (\<lambda>c. c \<noteq> CHR 0x0A) (drop (length ''inference_output '') column))
      else None)"

subsection \<open>Topics and training strings\<close>

definition topics :: "dataframe \<Rightarrow> string list" where
  "topics df =
     map (\<lambda>column. removeprefix column ''inference_output '')
       (filter (\<lambda>column. re_match_inference_output column \<noteq> None) (df_columns df))"

text \<open>
  The argument of \<^verbatim>\<open>extend\<close> for one topic,
  \<^verbatim>\<open>edited_df[f"full_prompt {topic}"] + edited_df[f"inference_output {topic}"] + "<|eot_id|>"\<close>:
  the prompt column is looked up first, then the output column, then the two are added,
  then the marker is added.
\<close>

definition topic_series :: "dataframe \<Rightarrow> string \<Rightarrow> error + series" where
  "topic_series df topic =
     (case df_getitem df (''full_prompt '' @ topic) of
        Inl e \<Rightarrow> Inl e
      | Inr prompt \<Rightarrow>
          (case df_getitem df (''inference_output '' @ topic) of
             Inl e \<Rightarrow> Inl e
           | Inr output \<Rightarrow>
               (case series_add prompt output of
                  Inl e \<Rightarrow> Inl e
                | Inr s \<Rightarrow> series_add_str s ''<|eot_id|>'')))"

text \<open>
  The loop over \<^verbatim>\<open>topics\<close>: the accumulator is \<^verbatim>\<open>full_text\<close>, extended by the cells
  of the topic's column; an error ends the cell.
\<close>

fun full_text_loop :: "dataframe \<Rightarrow> string list \<Rightarrow> cell list \<Rightarrow> error + cell list" where
  "full_text_loop df [] full_text = Inr full_text"
| "full_text_loop df (topic # rest) full_text =
     (case topic_series df topic of
        Inl e \<Rightarrow> Inl e
      | Inr s \<Rightarrow> full_text_loop df rest (full_text @ cells s))"

definition full_text :: "dataframe \<Rightarrow> error + cell list" where
  "full_text df = full_text_loop df (topics df) []"

record dataset =
  text_column :: "cell list"

text \<open>
  \<^verbatim>\<open>dataset = Dataset.from_dict({"text": full_text})\<close> makes the list the one column of
  a dataset. The column gets one type: a list that holds text next to something that
  is not text is refused. The statement after it,
  \<^verbatim>\<open>dataset.train_test_split(0.2)\<close>, hands the dataset to the \<^verbatim>\<open>datasets\<close> library,
  which shuffles and cuts it; that call is not part of this model.
\<close>

fun is_str :: "cell \<Rightarrow> bool" where
  "is_str (Str s) = True"
| "is_str c = False"

definition from_dict :: "cell list \<Rightarrow> error + dataset" where
  "from_dict xs =
     (if list_ex is_str xs \<and> list_ex (\<lambda>c. \<not> is_str c) xs
      then Inl ArrowError
      else Inr \<lparr>text_column = xs\<rparr>)"

definition build_dataset :: "dataframe \<Rightarrow> error + dataset" where
  "build_dataset df =
     (case full_text df of
        Inl e \<Rightarrow> Inl e
      | Inr xs \<Rightarrow> from_dict xs)"

text \<open>What one topic adds to \<^verbatim>\<open>full_text\<close>; nothing if its step raises.\<close>

definition topic_texts :: "dataframe \<Rightarrow> string \<Rightarrow> cell list" where
  "topic_texts df topic = (case topic_series df topic of Inl e \<Rightarrow> [] | Inr s \<Rightarrow> cells s)"

text \<open>
  A topic whose two columns are both there as object columns without numbers, and a
  table where every topic is such.
\<close>

definition is_text :: "dataframe \<Rightarrow> string \<Rightarrow> bool" where
  "is_text df name =
     (case map_of df name of
        Some (Object xs) \<Rightarrow> list_all (\<lambda>c. c \<noteq> Num) xs
      | _ \<Rightarrow> False)"

definition text_topics :: "dataframe \<Rightarrow> bool" where
  "text_topics df =
     list_all (\<lambda>t. is_text df (''full_prompt '' @ t) \<and> is_text df (''inference_output '' @ t))
       (topics df)"

text \<open>
  The table without one column: what the input would be had the column never been in
  the file. It is used to say that a column has no effect on the result.
\<close>

definition df_drop :: "dataframe \<Rightarrow> string \<Rightarrow> dataframe" where
  "df_drop df name = filter (\<lambda>c. fst c \<noteq> name) df"

subsection \<open>Concrete tables\<close>

text \<open>
  Small tables: one with two complete topics; one without any output column; one where
  topic \<open>dogs\<close> has no prompt column and topic \<open>birds\<close> no output column; one whose
  output column holds numbers; one with an empty output cell in its second row; and one
  where topic \<open>a\<close> has a numeric output column and topic \<open>b\<close> no prompt column.
\<close>

definition example_df :: dataframe where
  "example_df =
     [(''id'', Numeric [Num, Num]),
      (''full_prompt cats'', Object [Str ''P1 '', Str ''P2 '']),
      (''inference_output cats'', Object [Str ''O1'', Str ''O2'']),
      (''full_prompt dogs'', Object [Str ''Q1 '', Str ''Q2 '']),
      (''inference_output dogs'', Object [Str ''R1'', NaN])]"

definition no_topic_df :: dataframe where
  "no_topic_df =
     [(''id'', Numeric [Num, Num]),
      (''full_prompt cats'', Object [Str ''P1 '', Str ''P2 ''])]"

definition unmatched_df :: dataframe where
  "unmatched_df =
     [(''full_prompt cats'', Object [Str ''P1 '', Str ''P2 '']),
      (''inference_output cats'', Object [Str ''O1'', Str ''O2'']),
      (''inference_output dogs'', Object [Str ''R1'', Str ''R2'']),
      (''full_prompt birds'', Object [Str ''B1 '', Str ''B2 ''])]"


definition nan_df :: dataframe where
  "nan_df =
     [(''full_prompt cats'', Object [Str ''P1 '', Str ''P2 '']),
      (''inference_output cats'', Object [Str ''O1'', NaN])]"

definition type_error_df :: dataframe where
  "type_error_df =
     [(''full_prompt a'', Object [Str ''P1 '']),
      (''inference_output a'', Numeric [Num]),
      (''inference_output b'', Object [Str ''O1''])]"

section \<open>Model loading\<close>

text \<open>
  The loading cell makes three steps: it fetches the tokenizer, assigns
  \<^verbatim>\<open>tokenizer.pad_token = tokenizer.eos_token\<close>, and fetches the model. Both fetches are
  calls to the model hub; what they return, or the error they raise, is given to the
  model of the cell as an argument. A tokenizer may come without a padding token.
\<close>

record tokenizer =
  eos_token :: "string option"
  pad_token :: "string option"

definition load_model :: "error + tokenizer \<Rightarrow> error + 'm \<Rightarrow> error + tokenizer \<times> 'm" where
  "load_model tokenizer_from_pretrained model_from_pretrained =
     (case tokenizer_from_pretrained of
        Inl e \<Rightarrow> Inl e
      | Inr tokenizer \<Rightarrow>
          (let tokenizer = tokenizer\<lparr>pad_token := eos_token tokenizer\<rparr>
           in case model_from_pretrained of
                Inl e \<Rightarrow> Inl e
              | Inr model \<Rightarrow> Inr (tokenizer, model)))"

text \<open>A tokenizer as the hub delivers it: an end-of-sequence token and no padding token.\<close>

definition llama_tokenizer :: tokenizer where
  "llama_tokenizer = \<lparr>eos_token = Some ''<|eot_id|>'', pad_token = None\<rparr>"

section \<open>Properties of the dataset setup\<close>

subsection \<open>Prefixes and topic detection\<close>

lemma startswith_append: "startswith (p @ t) p"
  by (simp add: startswith_def)

lemma startswith_split: "startswith s p \<Longrightarrow> p @ drop (length p) s = s"
  unfolding startswith_def by (metis append_take_drop_id)

lemma removeprefix_restores: "startswith s p \<Longrightarrow> p @ removeprefix s p = s"
  by (simp add: removeprefix_def startswith_split)

lemma removeprefix_append: "removeprefix (p @ t) p = t"
  by (simp add: removeprefix_def startswith_def)

lemma re_match_iff: "re_match_inference_output c \<noteq> None \<longleftrightarrow> startswith c ''inference_output ''"
  by (simp add: re_match_inference_output_def)

lemma topics_output_column:
  assumes "t \<in> set (topics df)"
  shows "''inference_output '' @ t \<in> set (df_columns df)"
proof -
  from assms obtain c where c: "c \<in> set (df_columns df)"
    "re_match_inference_output c \<noteq> None" "t = removeprefix c ''inference_output ''"
    by (auto simp: topics_def)
  from c(2) have "startswith c ''inference_output ''"
    by (simp only: re_match_iff)
  then have "''inference_output '' @ t = c"
    unfolding c(3) by (rule removeprefix_restores)
  with c(1) show ?thesis by simp
qed

lemma topics_iff:
  "t \<in> set (topics df) \<longleftrightarrow> ''inference_output '' @ t \<in> set (df_columns df)"
proof
  assume "t \<in> set (topics df)"
  then show "''inference_output '' @ t \<in> set (df_columns df)"
    by (rule topics_output_column)
next
  assume c: "''inference_output '' @ t \<in> set (df_columns df)"
  have m: "re_match_inference_output (''inference_output '' @ t) \<noteq> None"
    unfolding re_match_iff by (rule startswith_append)
  from c m have "''inference_output '' @ t
      \<in> set (filter (\<lambda>column. re_match_inference_output column \<noteq> None) (df_columns df))"
    by simp
  then have "removeprefix (''inference_output '' @ t) ''inference_output '' \<in> set (topics df)"
    unfolding topics_def set_map by (rule imageI)
  then show "t \<in> set (topics df)"
    unfolding removeprefix_append .
qed

lemma topics_empty:
  assumes "\<forall>c\<in>set (df_columns df). re_match_inference_output c = None"
  shows "topics df = []"
  using assms by (simp add: topics_def filter_empty_conv)

subsection \<open>Lookups\<close>

lemma map_of_column:
  assumes "name \<in> set (df_columns df)"
  shows "\<exists>col. map_of df name = Some col"
proof -
  from assms have "name \<in> fst ` set df" by (simp add: df_columns_def)
  then show ?thesis
    by (metis domD dom_map_of_conv_image_fst)
qed

lemma map_of_absent:
  "name \<notin> set (df_columns df) \<Longrightarrow> map_of df name = None"
  by (simp add: df_columns_def map_of_eq_None_iff)

lemma df_getitem_Inr: "df_getitem df name = Inr col \<longleftrightarrow> map_of df name = Some col"
  by (simp add: df_getitem_def split: option.splits)

lemma column_length:
  assumes "wf_df df" "map_of df name = Some col"
  shows "length (cells col) = nrows df"
proof -
  from assms(2) have "(name, col) \<in> set df" by (rule map_of_SomeD)
  with assms(1) show ?thesis
    by (auto simp: wf_df_def list_all_iff)
qed

subsection \<open>Addition of cells and columns\<close>

lemma cell_add_error: "cell_add x y = Inl e \<Longrightarrow> e = TypeError"
  by (cases x; cases y) auto

lemma cells_add_error: "cells_add a b = Inl e \<Longrightarrow> e = TypeError"
  by (induction a b arbitrary: e rule: cells_add.induct)
     (auto split: sum.splits dest: cell_add_error)

lemma cells_add_length: "cells_add a b = Inr c \<Longrightarrow> length c = min (length a) (length b)"
  by (induction a b arbitrary: c rule: cells_add.induct) (auto split: sum.splits)

lemma cells_add_nth:
  "cells_add a b = Inr c \<Longrightarrow> i < length c \<Longrightarrow> cell_add (a ! i) (b ! i) = Inr (c ! i)"
proof (induction a b arbitrary: c i rule: cells_add.induct)
  case (1 x xs y ys)
  then show ?case
    by (cases i) (auto split: sum.splits)
qed auto

lemma cell_add_text:
  "x \<noteq> Num \<Longrightarrow> y \<noteq> Num \<Longrightarrow> \<exists>z. cell_add x y = Inr z \<and> z \<noteq> Num"
  by (cases x; cases y) auto

lemma cells_add_text:
  "list_all (\<lambda>c. c \<noteq> Num) a \<Longrightarrow> list_all (\<lambda>c. c \<noteq> Num) b
     \<Longrightarrow> \<exists>c. cells_add a b = Inr c \<and> list_all (\<lambda>c. c \<noteq> Num) c"
proof (induction a b rule: cells_add.induct)
  case (1 x xs y ys)
  from "1.prems" obtain z where z: "cell_add x y = Inr z" "z \<noteq> Num"
    using cell_add_text by fastforce
  from "1.prems" "1.IH" [OF z(1)] obtain zs where zs: "cells_add xs ys = Inr zs"
    "list_all (\<lambda>c. c \<noteq> Num) zs"
    by auto
  from z zs show ?case by simp
qed auto

lemma series_add_error: "series_add a b = Inl e \<Longrightarrow> e = TypeError"
  by (auto simp: series_add_def split: sum.splits series.splits dest: cells_add_error)

lemma series_add_str_error: "series_add_str a s = Inl e \<Longrightarrow> e = TypeError"
  by (cases a) (auto split: sum.splits dest: cells_add_error)

lemma series_add_cells:
  "series_add a b = Inr c \<Longrightarrow> cells_add (cells a) (cells b) = Inr (cells c)"
  by (auto simp: series_add_def split: sum.splits series.splits)

lemma series_add_str_cells:
  "series_add_str a s = Inr c
     \<Longrightarrow> cells_add (cells a) (replicate (length (cells a)) (Str s)) = Inr (cells c)"
  by (cases a) (auto split: sum.splits)

lemma series_add_text:
  assumes "list_all (\<lambda>c. c \<noteq> Num) xs" "list_all (\<lambda>c. c \<noteq> Num) ys"
  shows "\<exists>zs. series_add (Object xs) (Object ys) = Inr (Object zs) \<and> list_all (\<lambda>c. c \<noteq> Num) zs"
  using cells_add_text [OF assms] by (auto simp: series_add_def)

lemma series_add_str_text:
  assumes "list_all (\<lambda>c. c \<noteq> Num) xs"
  shows "\<exists>zs. series_add_str (Object xs) s = Inr (Object zs)"
proof -
  have "list_all (\<lambda>c. c \<noteq> Num) (replicate (length xs) (Str s))"
    by (simp add: list_all_iff)
  from cells_add_text [OF assms this] show ?thesis by auto
qed

subsection \<open>One topic\<close>

lemma topic_series_length:
  assumes "wf_df df" "topic_series df t = Inr r"
  shows "length (cells r) = nrows df"
proof -
  from assms(2) obtain p out s where
    p: "map_of df (''full_prompt '' @ t) = Some p" and
    out: "map_of df (''inference_output '' @ t) = Some out" and
    s: "series_add p out = Inr s" and
    r: "series_add_str s ''<|eot_id|>'' = Inr r"
    by (auto simp: topic_series_def df_getitem_def split: option.splits sum.splits)
  have "length (cells s) = nrows df"
    using cells_add_length [OF series_add_cells [OF s]]
      column_length [OF assms(1) p] column_length [OF assms(1) out] by simp
  with cells_add_length [OF series_add_str_cells [OF r]] show ?thesis by simp
qed

lemma topic_series_nth:
  assumes "topic_series df t = Inr r"
    "df_getitem df (''full_prompt '' @ t) = Inr prompt"
    "df_getitem df (''inference_output '' @ t) = Inr output"
    "i < length (cells r)"
  shows "\<exists>z. cell_add (cells prompt ! i) (cells output ! i) = Inr z
           \<and> cell_add z (Str ''<|eot_id|>'') = Inr (cells r ! i)"
proof -
  from assms(1,2,3) obtain s where
    s: "series_add prompt output = Inr s" and
    r: "series_add_str s ''<|eot_id|>'' = Inr r"
    by (auto simp: topic_series_def split: sum.splits)
  have lr: "length (cells r) = length (cells s)"
    using cells_add_length [OF series_add_str_cells [OF r]] by simp
  with assms(4) have i: "i < length (cells s)" by simp
  have a: "cell_add (cells prompt ! i) (cells output ! i) = Inr (cells s ! i)"
    using cells_add_nth [OF series_add_cells [OF s] i] .
  have "cell_add (cells s ! i) (replicate (length (cells s)) (Str ''<|eot_id|>'') ! i)
      = Inr (cells r ! i)"
    using cells_add_nth [OF series_add_str_cells [OF r] assms(4)] .
  with i have b: "cell_add (cells s ! i) (Str ''<|eot_id|>'') = Inr (cells r ! i)"
    by simp
  from a b show ?thesis by blast
qed

lemma topic_series_text:
  assumes "is_text df (''full_prompt '' @ t)" "is_text df (''inference_output '' @ t)"
  shows "\<exists>r. topic_series df t = Inr r"
proof -
  from assms(1) obtain xs where p: "map_of df (''full_prompt '' @ t) = Some (Object xs)"
    and xs: "list_all (\<lambda>c. c \<noteq> Num) xs"
    by (auto simp: is_text_def split: option.splits series.splits)
  from assms(2) obtain ys where out: "map_of df (''inference_output '' @ t) = Some (Object ys)"
    and ys: "list_all (\<lambda>c. c \<noteq> Num) ys"
    by (auto simp: is_text_def split: option.splits series.splits)
  from series_add_text [OF xs ys] obtain zs where
    zs: "series_add (Object xs) (Object ys) = Inr (Object zs)" "list_all (\<lambda>c. c \<noteq> Num) zs"
    by blast
  from series_add_str_text [OF zs(2)] obtain ws where
    "series_add_str (Object zs) ''<|eot_id|>'' = Inr (Object ws)"
    by blast
  with p out zs(1) show ?thesis
    by (simp add: topic_series_def df_getitem_def)
qed

lemma topic_series_errors:
  assumes "topic_series df t = Inl e" "''inference_output '' @ t \<in> set (df_columns df)"
  shows "e = TypeError
         \<or> (e = KeyError (''full_prompt '' @ t) \<and> ''full_prompt '' @ t \<notin> set (df_columns df))"
proof (cases "map_of df (''full_prompt '' @ t)")
  case None
  then have "''full_prompt '' @ t \<notin> set (df_columns df)"
    using map_of_column by fastforce
  moreover from None assms(1) have "e = KeyError (''full_prompt '' @ t)"
    by (simp add: topic_series_def df_getitem_def)
  ultimately show ?thesis by simp
next
  case (Some p)
  from assms(2) obtain out where "map_of df (''inference_output '' @ t) = Some out"
    using map_of_column by blast
  with Some assms(1) have "e = TypeError"
    by (auto simp: topic_series_def df_getitem_def split: sum.splits
        dest: series_add_error series_add_str_error)
  then show ?thesis by simp
qed

lemma topic_series_missing_prompt:
  assumes "''full_prompt '' @ t \<notin> set (df_columns df)"
  shows "topic_series df t = Inl (KeyError (''full_prompt '' @ t))"
  using map_of_absent [OF assms] by (simp add: topic_series_def df_getitem_def)

subsection \<open>The loop\<close>

lemma full_text_loop_Inr:
  "full_text_loop df ts acc = Inr xs
     \<Longrightarrow> xs = acc @ concat (map (topic_texts df) ts)
         \<and> (\<forall>t\<in>set ts. \<exists>r. topic_series df t = Inr r)"
proof (induction ts arbitrary: acc)
  case Nil
  then show ?case by simp
next
  case (Cons t ts)
  from Cons.prems obtain s where s: "topic_series df t = Inr s"
    and rest: "full_text_loop df ts (acc @ cells s) = Inr xs"
    by (auto split: sum.splits)
  from Cons.IH [OF rest] s show ?case
    by (simp add: topic_texts_def)
qed

lemma full_text_loop_Inl:
  "full_text_loop df ts acc = Inl e \<Longrightarrow> \<exists>u\<in>set ts. topic_series df u = Inl e"
proof (induction ts arbitrary: acc)
  case Nil
  then show ?case by simp
next
  case (Cons t ts)
  show ?case
  proof (cases "topic_series df t")
    case (Inl e')
    with Cons.prems show ?thesis by simp
  next
    case (Inr s)
    with Cons.prems have "full_text_loop df ts (acc @ cells s) = Inl e" by simp
    from Cons.IH [OF this] show ?thesis by auto
  qed
qed

lemma full_text_loop_completes:
  "\<forall>t\<in>set ts. \<exists>r. topic_series df t = Inr r \<Longrightarrow> \<exists>xs. full_text_loop df ts acc = Inr xs"
proof (induction ts arbitrary: acc)
  case Nil
  then show ?case by simp
next
  case (Cons t ts)
  from Cons.prems obtain r where r: "topic_series df t = Inr r" by auto
  from Cons.prems have "\<forall>t\<in>set ts. \<exists>r. topic_series df t = Inr r" by simp
  from Cons.IH [OF this, of "acc @ cells r"] r show ?case by simp
qed

lemma nth_concat_blocks:
  "\<forall>b\<in>set bs. length b = n \<Longrightarrow> k < length bs \<Longrightarrow> i < n \<Longrightarrow> concat bs ! (k * n + i) = bs ! k ! i"
proof (induction bs arbitrary: k)
  case Nil
  then show ?case by simp
next
  case (Cons b bs)
  show ?case
  proof (cases k)
    case 0
    with Cons.prems show ?thesis by (simp add: nth_append)
  next
    case (Suc j)
    with Cons.prems have "concat bs ! (j * n + i) = bs ! j ! i"
      by (intro Cons.IH) auto
    with Suc Cons.prems show ?thesis
      by (simp add: nth_append add.assoc)
  qed
qed

lemma full_text_blocks:
  assumes "wf_df df" "full_text df = Inr xs"
  shows "xs = concat (map (topic_texts df) (topics df))"
    and "\<forall>t\<in>set (topics df). \<exists>r. topic_series df t = Inr r"
    and "\<forall>t\<in>set (topics df). length (topic_texts df t) = nrows df"
proof -
  from assms(2) have l: "full_text_loop df (topics df) [] = Inr xs"
    by (simp add: full_text_def)
  from full_text_loop_Inr [OF l] show "xs = concat (map (topic_texts df) (topics df))"
    and ok: "\<forall>t\<in>set (topics df). \<exists>r. topic_series df t = Inr r"
    by simp_all
  show "\<forall>t\<in>set (topics df). length (topic_texts df t) = nrows df"
  proof
    fix t assume "t \<in> set (topics df)"
    with ok obtain r where r: "topic_series df t = Inr r" by blast
    from topic_series_length [OF assms(1) r] r show "length (topic_texts df t) = nrows df"
      by (simp add: topic_texts_def)
  qed
qed

lemma text_topics_complete:
  assumes "text_topics df"
  shows "\<exists>xs. full_text df = Inr xs"
proof -
  from assms have "\<forall>t\<in>set (topics df). \<exists>r. topic_series df t = Inr r"
    by (auto simp: text_topics_def list_all_iff intro: topic_series_text)
  from full_text_loop_completes [OF this, of "[]"] show ?thesis
    by (simp add: full_text_def)
qed

subsection \<open>Length of the flat sequence\<close>



lemma example_columns:
  "df_columns example_df = [''id'', ''full_prompt cats'', ''inference_output cats'',
     ''full_prompt dogs'', ''inference_output dogs'']"
  by (simp add: example_df_def df_columns_def)

lemma example_topics: "topics example_df = [''cats'', ''dogs'']"
  by (simp add: example_columns topics_def re_match_inference_output_def
      startswith_def removeprefix_def)

lemma example_nrows: "nrows example_df = 2"
  by (simp add: example_df_def nrows_def)

lemma example_wf: "wf_df example_df"
  unfolding wf_df_def example_columns example_nrows
  by (simp add: example_df_def)

lemma example_text: "text_topics example_df"
  unfolding text_topics_def example_topics
  by (simp add: example_df_def is_text_def)



subsection \<open>Content of the flat sequence\<close>

text \<open>
  The table \<open>nan_df\<close> has an empty output cell in its second row. The entry produced
  for that row is \<^verbatim>\<open>nan\<close>, not the prompt followed by the marker, and the dataset
  cannot be built from the list.
\<close>

theorem missing_cell_counterexample:
  "wf_df nan_df
   \<and> topics nan_df = [''cats'']
   \<and> df_getitem nan_df ''full_prompt cats'' = Inr (Object [Str ''P1 '', Str ''P2 ''])
   \<and> df_getitem nan_df ''inference_output cats'' = Inr (Object [Str ''O1'', NaN])
   \<and> full_text nan_df = Inr [Str ''P1 O1<|eot_id|>'', NaN]
   \<and> build_dataset nan_df = Inl ArrowError"
  by (simp add: nan_df_def wf_df_def df_columns_def nrows_def topics_def
      re_match_inference_output_def startswith_def removeprefix_def df_getitem_def
      full_text_def topic_series_def series_add_def build_dataset_def from_dict_def)

text \<open>
  C2, as the code has it. Take a table as \<^verbatim>\<open>read_csv\<close> delivers it on which the loop
  ends without error. The entry for row \<open>i\<close> of the \<open>k\<close>-th topic sits at position
  \<open>k * nrows df + i\<close> of \<^verbatim>\<open>full_text\<close>. If the prompt cell and the output cell of that
  row both hold text, the entry is the prompt text, followed directly by the output
  text, followed directly by \<^verbatim>\<open><|eot_id|>\<close>, and nothing else. If one of the two cells is
  missing, the entry is \<^verbatim>\<open>nan\<close>.
\<close>

theorem full_text_rows:
  assumes "wf_df df" "full_text df = Inr xs"
    "k < length (topics df)" "i < nrows df"
    "df_getitem df (''full_prompt '' @ topics df ! k) = Inr prompt"
    "df_getitem df (''inference_output '' @ topics df ! k) = Inr output"
  shows "(\<forall>p out. cells prompt ! i = Str p \<and> cells output ! i = Str out
            \<longrightarrow> xs ! (k * nrows df + i) = Str (p @ out @ ''<|eot_id|>''))
         \<and> (cells prompt ! i = NaN \<or> cells output ! i = NaN
            \<longrightarrow> xs ! (k * nrows df + i) = NaN)"
proof -
  let ?t = "topics df ! k"
  note b = full_text_blocks [OF assms(1,2)]
  from assms(3) have tk: "?t \<in> set (topics df)" by simp
  with b(2) obtain r where r: "topic_series df ?t = Inr r" by blast
  have lr: "length (cells r) = nrows df"
    by (rule topic_series_length [OF assms(1) r])
  have blocks: "\<forall>b\<in>set (map (topic_texts df) (topics df)). length b = nrows df"
    using b(3) by auto
  have "xs ! (k * nrows df + i) = map (topic_texts df) (topics df) ! k ! i"
    unfolding b(1) using blocks assms(3,4) by (intro nth_concat_blocks) auto
  also have "\<dots> = topic_texts df ?t ! i"
    using assms(3) by simp
  also have "\<dots> = cells r ! i"
    using r by (simp add: topic_texts_def)
  finally have at: "xs ! (k * nrows df + i) = cells r ! i" .
  from assms(4) lr have "i < length (cells r)" by simp
  from topic_series_nth [OF r assms(5,6) this] obtain z where
    z: "cell_add (cells prompt ! i) (cells output ! i) = Inr z"
       "cell_add z (Str ''<|eot_id|>'') = Inr (cells r ! i)"
    by blast
  show ?thesis
  proof (intro conjI allI impI)
    fix p out
    assume "cells prompt ! i = Str p \<and> cells output ! i = Str out"
    with z have "cells r ! i = Str (p @ out @ ''<|eot_id|>'')" by auto
    with at show "xs ! (k * nrows df + i) = Str (p @ out @ ''<|eot_id|>'')" by simp
  next
    assume "cells prompt ! i = NaN \<or> cells output ! i = NaN"
    with z have "z = NaN" by (cases "cells prompt ! i") auto
    with z(2) have "cells r ! i = NaN" by simp
    with at show "xs ! (k * nrows df + i) = NaN" by simp
  qed
qed

theorem full_text_rows_witness:
  "wf_df example_df
   \<and> (1::nat) < length (topics example_df) \<and> (1::nat) < nrows example_df
   \<and> df_getitem example_df (''full_prompt '' @ topics example_df ! 1)
       = Inr (Object [Str ''Q1 '', Str ''Q2 ''])
   \<and> df_getitem example_df (''inference_output '' @ topics example_df ! 1)
       = Inr (Object [Str ''R1'', NaN])
   \<and> (\<exists>xs. full_text example_df = Inr xs
         \<and> xs ! 2 = Str ''Q1 R1<|eot_id|>'' \<and> xs ! 3 = NaN)"
proof -
  from text_topics_complete [OF example_text]
  obtain xs where xs: "full_text example_df = Inr xs" ..
  have k: "1 < length (topics example_df)"
    by (simp add: example_topics)
  have i0: "0 < nrows example_df" and i1: "1 < nrows example_df"
    by (simp_all add: example_nrows)
  have t: "topics example_df ! 1 = ''dogs''"
    by (simp add: example_topics)
  have p: "df_getitem example_df (''full_prompt '' @ topics example_df ! 1)
      = Inr (Object [Str ''Q1 '', Str ''Q2 ''])"
    unfolding t by (simp add: example_df_def df_getitem_def)
  have out: "df_getitem example_df (''inference_output '' @ topics example_df ! 1)
      = Inr (Object [Str ''R1'', NaN])"
    unfolding t by (simp add: example_df_def df_getitem_def)
  from full_text_rows [OF example_wf xs k i0 p out]
  have a: "xs ! 2 = Str ''Q1 R1<|eot_id|>''"
    by (simp add: example_nrows)
  from full_text_rows [OF example_wf xs k i1 p out]
  have b: "xs ! 3 = NaN"
    by (simp add: example_nrows)
  from xs a b example_wf k i1 p out show ?thesis
    by blast
qed

subsection \<open>Tables without an output column\<close>

text \<open>
  The table \<open>no_topic_df\<close> has no column that matches; the cell raises nothing and
  builds a dataset without examples.
\<close>

theorem no_topics_counterexample:
  "re_match_inference_output ''id'' = None
   \<and> re_match_inference_output ''full_prompt cats'' = None
   \<and> df_columns no_topic_df = [''id'', ''full_prompt cats'']
   \<and> build_dataset no_topic_df = Inr \<lparr>text_column = []\<rparr>"
  by (simp add: no_topic_df_def df_columns_def re_match_inference_output_def startswith_def
      build_dataset_def full_text_def topics_def from_dict_def)

text \<open>
  C4, as the code has it. When no column matches \<^verbatim>\<open>inference_output .*\<close>, the list of
  topics is empty, the loop body never runs, and building the dataset raises no error:
  \<^verbatim>\<open>full_text\<close> stays the empty list it was initialised to.
\<close>

theorem no_topics_no_error:
  assumes "\<forall>c\<in>set (df_columns df). re_match_inference_output c = None"
  shows "topics df = [] \<and> full_text df = Inr [] \<and> (\<forall>e. build_dataset df \<noteq> Inl e)"
  using topics_empty [OF assms] by (simp add: full_text_def build_dataset_def from_dict_def)

lemma no_topic_columns:
  "\<forall>c\<in>set (df_columns no_topic_df). re_match_inference_output c = None"
  by (simp add: no_topic_df_def df_columns_def re_match_inference_output_def startswith_def)

theorem no_topics_no_error_witness:
  "list_all (\<lambda>c. re_match_inference_output c = None) (df_columns no_topic_df)
   \<and> topics no_topic_df = [] \<and> full_text no_topic_df = Inr []
   \<and> (\<forall>e. build_dataset no_topic_df \<noteq> Inl e)"
  using no_topics_no_error [OF no_topic_columns] no_topic_columns
  by (simp add: list_all_iff)

text \<open>
  C5. When no column matches the naming convention, building the dataset (topic
  detection, the loop and \<^verbatim>\<open>Dataset.from_dict\<close>) completes and the dataset is empty:
  its text column has length zero. Only the output columns are looked at, so the
  condition asks no more than that none of them is there.
\<close>

theorem no_topics_empty_dataset:
  assumes "\<forall>c\<in>set (df_columns df). re_match_inference_output c = None"
  shows "\<exists>d. build_dataset df = Inr d \<and> length (text_column d) = 0"
  using topics_empty [OF assms] by (simp add: full_text_def build_dataset_def from_dict_def)

theorem no_topics_empty_dataset_witness:
  "list_all (\<lambda>c. re_match_inference_output c = None) (df_columns no_topic_df)
   \<and> (\<exists>d. build_dataset no_topic_df = Inr d \<and> length (text_column d) = 0)"
  using no_topics_empty_dataset [OF no_topic_columns] no_topic_columns
  by (simp add: list_all_iff)

subsection \<open>Topics with a missing column\<close>

lemma map_of_df_drop: "k \<noteq> name \<Longrightarrow> map_of (df_drop df name) k = map_of df k"
  unfolding df_drop_def by (induction df) auto

lemma topic_series_df_drop:
  assumes "''full_prompt '' @ t \<noteq> name" "''inference_output '' @ t \<noteq> name"
  shows "topic_series (df_drop df name) t = topic_series df t"
  unfolding topic_series_def df_getitem_def
    map_of_df_drop [OF assms(1)] map_of_df_drop [OF assms(2)] ..

lemma full_text_loop_df_drop:
  assumes "\<forall>t\<in>set ts. ''full_prompt '' @ t \<noteq> name \<and> ''inference_output '' @ t \<noteq> name"
  shows "full_text_loop (df_drop df name) ts acc = full_text_loop df ts acc"
  using assms
proof (induction ts arbitrary: acc)
  case Nil
  then show ?case by simp
next
  case (Cons t ts)
  from Cons.prems have "topic_series (df_drop df name) t = topic_series df t"
    by (intro topic_series_df_drop) auto
  moreover from Cons.prems have "\<And>acc. full_text_loop (df_drop df name) ts acc = full_text_loop df ts acc"
    by (intro Cons.IH) auto
  ultimately show ?case by (simp split: sum.splits)
qed

lemma topics_df_drop:
  assumes "re_match_inference_output name = None"
  shows "topics (df_drop df name) = topics df"
proof -
  have "filter (\<lambda>c. re_match_inference_output c \<noteq> None) (df_columns (df_drop df name))
      = filter (\<lambda>c. re_match_inference_output c \<noteq> None) (df_columns df)"
    unfolding df_columns_def df_drop_def using assms
    by (induction df) auto
  then show ?thesis by (simp add: topics_def)
qed

lemma full_prompt_no_match: "re_match_inference_output (''full_prompt '' @ t) = None"
  by (simp add: re_match_inference_output_def startswith_def)

lemma missing_prompt_fails:
  assumes "''inference_output '' @ t \<in> set (df_columns df)"
    "''full_prompt '' @ t \<notin> set (df_columns df)"
  shows "\<exists>e. full_text df = Inl e
           \<and> (e = TypeError
              \<or> (\<exists>u\<in>set (topics df). ''full_prompt '' @ u \<notin> set (df_columns df)
                    \<and> e = KeyError (''full_prompt '' @ u)))
           \<and> (\<exists>u\<in>set (topics df). topic_series df u = Inl e)"
proof (cases "full_text df")
  case (Inr xs)
  then have "full_text_loop df (topics df) [] = Inr xs"
    by (simp add: full_text_def)
  from full_text_loop_Inr [OF this]
  have ok: "\<forall>t\<in>set (topics df). \<exists>r. topic_series df t = Inr r" by simp
  from assms(1) have "t \<in> set (topics df)" by (simp only: topics_iff)
  with ok obtain r where "topic_series df t = Inr r" by blast
  with topic_series_missing_prompt [OF assms(2)] show ?thesis by simp
next
  case (Inl e)
  then have "full_text_loop df (topics df) [] = Inl e"
    by (simp add: full_text_def)
  from full_text_loop_Inl [OF this]
  obtain u where u: "u \<in> set (topics df)" "topic_series df u = Inl e"
    by blast
  from u(1) have "''inference_output '' @ u \<in> set (df_columns df)"
    by (simp add: topics_iff)
  from topic_series_errors [OF u(2) this] u Inl show ?thesis
    by blast
qed

text \<open>
  The table \<open>type_error_df\<close> has the column \<^verbatim>\<open>inference_output b\<close> and no column
  \<^verbatim>\<open>full_prompt b\<close>, yet the cell does not end with a \<^verbatim>\<open>KeyError\<close>: topic \<open>a\<close> comes
  first, its output column holds numbers, and the addition raises \<^verbatim>\<open>TypeError\<close> before
  the prompt column of \<open>b\<close> is looked up.
\<close>

theorem type_error_first_counterexample:
  "df_columns type_error_df = [''full_prompt a'', ''inference_output a'', ''inference_output b'']
   \<and> topics type_error_df = [''a'', ''b'']
   \<and> full_text type_error_df = Inl TypeError
   \<and> build_dataset type_error_df = Inl TypeError"
  by (simp add: type_error_df_def df_columns_def topics_def re_match_inference_output_def
      startswith_def removeprefix_def df_getitem_def full_text_def topic_series_def
      series_add_def build_dataset_def)

text \<open>
  C10, as the code has it. A name \<open>t\<close> is a topic exactly when the table has the column
  \<^verbatim>\<open>inference_output t\<close>. If that column is there and \<^verbatim>\<open>full_prompt t\<close> is not, the
  cell always ends with an error and builds no dataset: the error is the \<^verbatim>\<open>KeyError\<close>
  of a prompt column that some topic lacks, or the \<^verbatim>\<open>TypeError\<close> of a topic whose
  columns cannot be added; it is the \<^verbatim>\<open>KeyError\<close> whenever no topic's columns raise
  \<^verbatim>\<open>TypeError\<close>. If \<^verbatim>\<open>full_prompt t\<close> is there and \<^verbatim>\<open>inference_output t\<close> is not,
  then \<open>t\<close> is no topic and the result is the one the table without that prompt column
  gives: the column adds no entry and raises nothing.
\<close>

theorem topics_from_output_columns:
  "(t \<in> set (topics df) \<longleftrightarrow> ''inference_output '' @ t \<in> set (df_columns df))
   \<and> (''inference_output '' @ t \<in> set (df_columns df)
        \<and> ''full_prompt '' @ t \<notin> set (df_columns df)
      \<longrightarrow> (\<exists>e. full_text df = Inl e \<and> build_dataset df = Inl e
             \<and> (e = TypeError
                \<or> (\<exists>u\<in>set (topics df). ''full_prompt '' @ u \<notin> set (df_columns df)
                      \<and> e = KeyError (''full_prompt '' @ u)))))
   \<and> (''inference_output '' @ t \<in> set (df_columns df)
        \<and> ''full_prompt '' @ t \<notin> set (df_columns df)
        \<and> (\<forall>u\<in>set (topics df). topic_series df u \<noteq> Inl TypeError)
      \<longrightarrow> (\<exists>u\<in>set (topics df). ''full_prompt '' @ u \<notin> set (df_columns df)
             \<and> full_text df = Inl (KeyError (''full_prompt '' @ u))
             \<and> build_dataset df = Inl (KeyError (''full_prompt '' @ u))))
   \<and> (''full_prompt '' @ t \<in> set (df_columns df)
        \<and> ''inference_output '' @ t \<notin> set (df_columns df)
      \<longrightarrow> t \<notin> set (topics df)
          \<and> full_text df = full_text (df_drop df (''full_prompt '' @ t)))"
proof (intro conjI impI)
  show "t \<in> set (topics df) \<longleftrightarrow> ''inference_output '' @ t \<in> set (df_columns df)"
    by (rule topics_iff)
next
  assume "''inference_output '' @ t \<in> set (df_columns df)
        \<and> ''full_prompt '' @ t \<notin> set (df_columns df)"
  then have a: "''inference_output '' @ t \<in> set (df_columns df)"
    and b: "''full_prompt '' @ t \<notin> set (df_columns df)"
    by simp_all
  from missing_prompt_fails [OF a b]
  show "\<exists>e. full_text df = Inl e \<and> build_dataset df = Inl e
             \<and> (e = TypeError
                \<or> (\<exists>u\<in>set (topics df). ''full_prompt '' @ u \<notin> set (df_columns df)
                      \<and> e = KeyError (''full_prompt '' @ u)))"
    by (auto simp: build_dataset_def)
next
  assume "''inference_output '' @ t \<in> set (df_columns df)
        \<and> ''full_prompt '' @ t \<notin> set (df_columns df)
        \<and> (\<forall>u\<in>set (topics df). topic_series df u \<noteq> Inl TypeError)"
  then have a: "''inference_output '' @ t \<in> set (df_columns df)"
    and b: "''full_prompt '' @ t \<notin> set (df_columns df)"
    and c: "\<forall>u\<in>set (topics df). topic_series df u \<noteq> Inl TypeError"
    by simp_all
  from missing_prompt_fails [OF a b] obtain e where e: "full_text df = Inl e"
    "e = TypeError \<or> (\<exists>u\<in>set (topics df). ''full_prompt '' @ u \<notin> set (df_columns df)
                    \<and> e = KeyError (''full_prompt '' @ u))"
    "\<exists>u\<in>set (topics df). topic_series df u = Inl e"
    by blast
  from e(3) c have "e \<noteq> TypeError" by auto
  with e(2) obtain u where u: "u \<in> set (topics df)"
    "''full_prompt '' @ u \<notin> set (df_columns df)" "e = KeyError (''full_prompt '' @ u)"
    by blast
  from e(1) have "build_dataset df = Inl e" by (simp add: build_dataset_def)
  with e(1) u show "\<exists>u\<in>set (topics df). ''full_prompt '' @ u \<notin> set (df_columns df)
             \<and> full_text df = Inl (KeyError (''full_prompt '' @ u))
             \<and> build_dataset df = Inl (KeyError (''full_prompt '' @ u))"
    by blast
next
  assume a: "''full_prompt '' @ t \<in> set (df_columns df)
        \<and> ''inference_output '' @ t \<notin> set (df_columns df)"
  then show "t \<notin> set (topics df)" by (simp add: topics_iff)
  have "\<forall>u\<in>set (topics df). ''full_prompt '' @ u \<noteq> ''full_prompt '' @ t
          \<and> ''inference_output '' @ u \<noteq> ''full_prompt '' @ t"
    using a by (auto simp: topics_iff)
  then have eq: "full_text_loop (df_drop df (''full_prompt '' @ t)) (topics df) []
      = full_text_loop df (topics df) []"
    by (rule full_text_loop_df_drop)
  have td: "topics (df_drop df (''full_prompt '' @ t)) = topics df"
    by (rule topics_df_drop [OF full_prompt_no_match])
  show "full_text df = full_text (df_drop df (''full_prompt '' @ t))"
    unfolding full_text_def td using eq by (rule sym)
qed

lemma unmatched_columns:
  "df_columns unmatched_df
     = [''full_prompt cats'', ''inference_output cats'', ''inference_output dogs'', ''full_prompt birds'']"
  by (simp add: unmatched_df_def df_columns_def)

lemma unmatched_topics: "topics unmatched_df = [''cats'', ''dogs'']"
  by (simp add: unmatched_columns topics_def re_match_inference_output_def
      startswith_def removeprefix_def)

lemma unmatched_no_type_error:
  "\<forall>u\<in>set (topics unmatched_df). topic_series unmatched_df u \<noteq> Inl TypeError"
  unfolding unmatched_topics
  by (simp add: unmatched_df_def topic_series_def df_getitem_def series_add_def)

theorem topics_from_output_columns_witness:
  "(''inference_output dogs'' \<in> set (df_columns unmatched_df)
     \<and> ''full_prompt dogs'' \<notin> set (df_columns unmatched_df))
   \<and> list_all (\<lambda>u. topic_series unmatched_df u \<noteq> Inl TypeError) (topics unmatched_df)
   \<and> full_text unmatched_df = Inl (KeyError ''full_prompt dogs'')
   \<and> build_dataset unmatched_df = Inl (KeyError ''full_prompt dogs'')
   \<and> (''full_prompt birds'' \<in> set (df_columns unmatched_df)
     \<and> ''inference_output birds'' \<notin> set (df_columns unmatched_df))
   \<and> ''birds'' \<notin> set (topics unmatched_df)
   \<and> full_text unmatched_df = full_text (df_drop unmatched_df ''full_prompt birds'')"
proof -
  have dogs: "''inference_output '' @ ''dogs'' \<in> set (df_columns unmatched_df)
     \<and> ''full_prompt '' @ ''dogs'' \<notin> set (df_columns unmatched_df)"
    by (simp add: unmatched_columns)
  have birds: "''full_prompt '' @ ''birds'' \<in> set (df_columns unmatched_df)
     \<and> ''inference_output '' @ ''birds'' \<notin> set (df_columns unmatched_df)"
    by (simp add: unmatched_columns)
  from topics_from_output_columns [of "''dogs''" unmatched_df] dogs unmatched_no_type_error
  have "\<exists>u\<in>set (topics unmatched_df). ''full_prompt '' @ u \<notin> set (df_columns unmatched_df)
             \<and> full_text unmatched_df = Inl (KeyError (''full_prompt '' @ u))
             \<and> build_dataset unmatched_df = Inl (KeyError (''full_prompt '' @ u))"
    by blast
  then have err: "full_text unmatched_df = Inl (KeyError ''full_prompt dogs'')"
    and berr: "build_dataset unmatched_df = Inl (KeyError ''full_prompt dogs'')"
    by (auto simp: unmatched_topics unmatched_columns)
  from topics_from_output_columns [of "''birds''" unmatched_df] birds
  have "''birds'' \<notin> set (topics unmatched_df)
          \<and> full_text unmatched_df = full_text (df_drop unmatched_df (''full_prompt '' @ ''birds''))"
    by blast
  then have gone: "''birds'' \<notin> set (topics unmatched_df)"
    and same: "full_text unmatched_df = full_text (df_drop unmatched_df ''full_prompt birds'')"
    by simp_all
  have d: "''inference_output dogs'' \<in> set (df_columns unmatched_df)
     \<and> ''full_prompt dogs'' \<notin> set (df_columns unmatched_df)"
    using dogs by simp
  have b: "''full_prompt birds'' \<in> set (df_columns unmatched_df)
     \<and> ''inference_output birds'' \<notin> set (df_columns unmatched_df)"
    using birds by simp
  have nt: "list_all (\<lambda>u. topic_series unmatched_df u \<noteq> Inl TypeError) (topics unmatched_df)"
    using unmatched_no_type_error by (simp add: list_all_iff)
  from d nt err berr b gone same show ?thesis
    by (intro conjI) blast+
qed

section \<open>Properties of model loading\<close>

text \<open>
  C8. Whenever the loading cell completes, the tokenizer it leaves behind has its
  padding token equal to its end-of-sequence token, and that end-of-sequence token is
  the one the hub delivered. The assignment is made before the model is fetched, hence
  before any later cell receives the tokenizer.
\<close>

theorem pad_token_is_eos_token:
  assumes "load_model tokenizer_from_pretrained model_from_pretrained = Inr (tokenizer, model)"
  shows "pad_token tokenizer = eos_token tokenizer
         \<and> (\<exists>t. tokenizer_from_pretrained = Inr t \<and> eos_token tokenizer = eos_token t)"
  using assms
  by (auto simp: load_model_def Let_def split: sum.splits)

theorem pad_token_is_eos_token_witness:
  "load_model (Inr llama_tokenizer) (Inr ()) = Inr (llama_tokenizer\<lparr>pad_token := Some ''<|eot_id|>''\<rparr>, ())
   \<and> pad_token (llama_tokenizer\<lparr>pad_token := Some ''<|eot_id|>''\<rparr>)
       = eos_token (llama_tokenizer\<lparr>pad_token := Some ''<|eot_id|>''\<rparr>)"
proof -
  have l: "load_model (Inr llama_tokenizer) (Inr ())
      = Inr (llama_tokenizer\<lparr>pad_token := Some ''<|eot_id|>''\<rparr>, ())"
    by (simp add: load_model_def llama_tokenizer_def)
  from pad_token_is_eos_token [OF l] l show ?thesis by blast
qed

end
